theory Spec2Isabelle
  imports Main "HOL-Library.Signed_Division"
begin

section \<open>Sparse compressed tensor representation (ATen/SparseCsrTensorImpl.cpp)\<close>

text \<open>
  A shallow embedding of \<^verbatim>\<open>aten/src/ATen/SparseCsrTensorImpl.cpp\<close>.  Every member
  function of \<^verbatim>\<open>SparseCsrTensorImpl\<close> becomes a function on an explicit state; a C++
  exception becomes a value \<open>Inl\<close> that carries the state reached when it was thrown, so
  that a mutation done before a failing check stays visible.

  Naming: Isabelle does not admit a trailing underscore in a constant's name, so the
  trailing underscore of a C++ name is written as a prime (\<^verbatim>\<open>crow_indices_\<close> is
  \<open>crow_indices'\<close>, \<^verbatim>\<open>resize_\<close> is \<open>resize'\<close>).  The machine integers
  \<^verbatim>\<open>int64_t\<close> are modelled by \<open>int\<close>, with the wrap-around written out where a
  product of two dimensions is taken (\<open>int64_mul\<close>), and \<^verbatim>\<open>/\<close> is the truncating
  division \<open>sdiv\<close>.  A dimension plus one is not wrapped: it leaves 64 bits only at a
  dimension that no buffer can have.
\<close>

subsection \<open>Machine integers\<close>

text \<open>
  The product \<^verbatim>\<open>rows*cols\<close> of two \<^verbatim>\<open>int64_t\<close> values: the 64-bit two's-complement
  product, which is the product itself whenever that fits 64 bits.
\<close>

definition int64_wrap :: "int \<Rightarrow> int" where
  "int64_wrap x = (x + 2 ^ 63) mod 2 ^ 64 - 2 ^ 63"

definition int64_mul :: "int \<Rightarrow> int \<Rightarrow> int" where
  "int64_mul a b = int64_wrap (a * b)"

subsection \<open>Tags and errors\<close>

text \<open>
  Modelled from the spec: the enumerations \<^verbatim>\<open>ScalarType\<close>, \<^verbatim>\<open>DeviceType\<close>,
  \<^verbatim>\<open>Layout\<close> and \<^verbatim>\<open>DispatchKey\<close> are declared in c10 headers that are not part of
  the sources at hand.  The layout is one of the four compressed variants of the spec's data
  model; a device is a type and an index (the two integers the source's comment mentions).
\<close>

datatype ScalarType = kByte | kChar | kShort | kInt | kLong | kHalf | kFloat | kDouble | kBool

datatype DeviceType = kCPU | kCUDA

datatype Device = Device DeviceType int

datatype Layout = kSparseCsr | kSparseCsc | kSparseBsr | kSparseBsc

datatype DispatchKey = CPU | CUDA | SparseCPU | SparseCUDA | SparseCsrCPU | SparseCsrCUDA

datatype MemoryFormat = Contiguous | Preserve | ChannelsLast | ChannelsLast3d

datatype SizesStridesPolicy = Default | CustomStrides | CustomSizes

text \<open>
  The error taxonomy of the spec, one constructor per kind of failing \<^verbatim>\<open>TORCH_CHECK\<close> of
  the file.  The last three are failures of the dense-tensor library the file calls:
  a range check (\<^verbatim>\<open>size(dim)\<close>, \<^verbatim>\<open>narrow\<close>, \<^verbatim>\<open>ArrayRef::slice\<close>; an unchecked
  \<^verbatim>\<open>ArrayRef::operator[]\<close> out of range, undefined in C++, is modelled as this failure
  too), a negative dimension, and an integer division by zero (undefined in C++).
\<close>

datatype error =
    InvalidDeviceTag
  | DeviceMismatch
  | TypeMismatch
  | InvalidArgument
  | UnsupportedOnSymbolicShape
  | UnsupportedOperation
  | IndexError
  | NegativeDimension
  | DivisionByZero

subsection \<open>Dense buffers\<close>

text \<open>
  Modelled from the spec: \<^verbatim>\<open>at::Tensor\<close> and its operations \<^verbatim>\<open>at::empty\<close>,
  \<^verbatim>\<open>at::empty_like\<close>, \<^verbatim>\<open>Tensor::resize_\<close>, \<^verbatim>\<open>Tensor::size\<close>, \<^verbatim>\<open>Tensor::narrow\<close>,
  \<^verbatim>\<open>Tensor::fill_\<close> and \<^verbatim>\<open>Tensor::zero_\<close> are the generic tensor base the spec lists as
  an external collaborator (buffer allocation, resize in place, fill and zero, device and
  scalar-type tags); their code is not part of the sources at hand.

  A buffer is a contiguous row-major sequence of cells of a given shape, held in a
  storage.  Storages live in a store indexed by addresses, because buffers may share one:
  \<^verbatim>\<open>narrow\<close> returns a view of the buffer it is applied to, and writing through the view
  writes the buffer.  A cell is \<open>None\<close> while it is uninitialised.  Element values are
  integers (the contents of the values buffer are never read in this file).  A tensor
  handle is modelled by value: the three member buffers of an instance are three tensor
  objects, each resized on its own, as in the spec's data model.
\<close>

type_synonym cell = "int option"

record World =
  heap :: "nat \<Rightarrow> cell list"
  next_storage :: nat
  beta_warned :: bool

record Tensor =
  storage :: nat
  sizes :: "int list"
  scalar_type :: ScalarType
  device :: Device

record TensorView =
  view_storage :: nat
  view_offset :: nat
  view_sizes :: "nat list"
  view_strides :: "nat list"

definition numel_of :: "int list \<Rightarrow> nat" where
  "numel_of sz = nat (prod_list sz)"

fun contiguous_strides :: "nat list \<Rightarrow> nat list" where
  "contiguous_strides [] = []"
| "contiguous_strides (n # ns) = prod_list ns # contiguous_strides ns"

text \<open>
  Modelled from the spec: the storage positions a view addresses, in row-major order of
  its indices (the strided addressing of \<^verbatim>\<open>at::Tensor\<close>, not part of the sources at
  hand).
\<close>

fun view_offsets :: "nat \<Rightarrow> nat list \<Rightarrow> nat list \<Rightarrow> nat list" where
  "view_offsets off [] ss = [off]"
| "view_offsets off (n # ns) [] = []"
| "view_offsets off (n # ns) (s # ss) =
     concat (map (\<lambda>i. view_offsets (off + i * s) ns ss) [0..<n])"

definition whole :: "Tensor \<Rightarrow> TensorView" where
  "whole t =
     \<lparr>view_storage = storage t, view_offset = 0, view_sizes = map nat (sizes t),
      view_strides = contiguous_strides (map nat (sizes t))\<rparr>"

text \<open>
  Modelled from the spec: the entries of a buffer in row-major order, as the store holds
  them (\<open>None\<close> past the storage's end).
\<close>

definition cell_at :: "cell list \<Rightarrow> nat \<Rightarrow> cell" where
  "cell_at st i = (if i < length st then st ! i else None)"

definition entries :: "World \<Rightarrow> Tensor \<Rightarrow> cell list" where
  "entries w t = map (cell_at (heap w (storage t))) [0..<numel_of (sizes t)]"

text \<open>
  Modelled from the spec: \<^verbatim>\<open>at::empty(size, options)\<close>, the typed empty allocation.  A
  negative dimension is refused; otherwise a new storage of uninitialised cells is
  allocated at the next free address.
\<close>

definition at_empty ::
  "World \<Rightarrow> int list \<Rightarrow> Device \<Rightarrow> ScalarType \<Rightarrow> error + (World \<times> Tensor)" where
  "at_empty w sz dev dt =
     (if list_ex (\<lambda>d. d < 0) sz then Inl NegativeDimension
      else
        let a = next_storage w in
        Inr (w\<lparr>heap := (heap w)(a := replicate (numel_of sz) None), next_storage := Suc a\<rparr>,
             \<lparr>storage = a, sizes = sz, scalar_type = dt, device = dev\<rparr>))"

text \<open>
  Modelled from the spec: \<^verbatim>\<open>at::empty_like(t, t.options(), t.suggest_memory_format())\<close>,
  the "like" allocation: a new buffer of the shape, scalar type and device of \<open>t\<close>, its
  content uninitialised.
\<close>

definition at_empty_like :: "World \<Rightarrow> Tensor \<Rightarrow> World \<times> Tensor" where
  "at_empty_like w t =
     (let a = next_storage w in
      (w\<lparr>heap := (heap w)(a := replicate (numel_of (sizes t)) None), next_storage := Suc a\<rparr>,
       t\<lparr>storage := a\<rparr>))"

text \<open>
  Modelled from the spec: \<^verbatim>\<open>c10::maybe_wrap_dim(dim, dim_post_expr, wrap_scalar)\<close> and
  \<^verbatim>\<open>Tensor::size(dim)\<close>, not part of the sources at hand.  A negative \<open>dim\<close> counts
  from the end; a \<open>dim\<close> out of range is refused.
\<close>

definition maybe_wrap_dim :: "int \<Rightarrow> int \<Rightarrow> bool \<Rightarrow> error + nat" where
  "maybe_wrap_dim dim dim_post_expr wrap_scalar =
     (if dim_post_expr \<le> 0 \<and> \<not> wrap_scalar then Inl IndexError
      else
        let n = (if dim_post_expr \<le> 0 then 1 else dim_post_expr) in
        if - n \<le> dim \<and> dim \<le> n - 1 then Inr (nat (if dim < 0 then dim + n else dim))
        else Inl IndexError)"

definition Tensor_size :: "Tensor \<Rightarrow> int \<Rightarrow> error + int" where
  "Tensor_size t dim =
     (case maybe_wrap_dim dim (int (length (sizes t))) False of
        Inl e \<Rightarrow> Inl e
      | Inr d \<Rightarrow> Inr (sizes t ! d))"

text \<open>
  Modelled from the spec: \<^verbatim>\<open>Tensor::resize_(size)\<close>, the buffer resize in place.  The
  buffer takes the new shape, contiguous, in its own storage.  The storage grows when the
  new number of entries exceeds it; the cells it holds stay where they are in the storage
  (prior entries are untouched), and the new cells are uninitialised.  A storage is never
  shrunk, and the storage of a buffer left with no entry is not touched.  A negative
  dimension is refused.
\<close>

definition Tensor_resize' :: "World \<Rightarrow> Tensor \<Rightarrow> int list \<Rightarrow> error + (World \<times> Tensor)" where
  "Tensor_resize' w t sz =
     (if list_ex (\<lambda>d. d < 0) sz then Inl NegativeDimension
      else
        let n = numel_of sz; st = heap w (storage t) in
        if n = 0 \<or> n \<le> length st then Inr (w, t\<lparr>sizes := sz\<rparr>)
        else Inr (w\<lparr>heap := (heap w)(storage t := st @ replicate (n - length st) None)\<rparr>,
                  t\<lparr>sizes := sz\<rparr>))"

text \<open>
  Modelled from the spec: \<^verbatim>\<open>Tensor::narrow(dim, start, length)\<close>, not part of the sources
  at hand: the view of the entries whose index along \<open>dim\<close> lies in
  \<open>[start, start + length)\<close>; a range that leaves the dimension is refused.
\<close>

definition narrow :: "Tensor \<Rightarrow> int \<Rightarrow> int \<Rightarrow> int \<Rightarrow> error + TensorView" where
  "narrow t dim start len =
     (if length (sizes t) = 0 then Inl IndexError
      else
        case maybe_wrap_dim dim (int (length (sizes t))) False of
          Inl e \<Rightarrow> Inl e
        | Inr d \<Rightarrow>
            (let cur_size = sizes t ! d in
             case (if start \<noteq> cur_size then maybe_wrap_dim start cur_size True
                   else Inr (nat start)) of
               Inl e \<Rightarrow> Inl e
             | Inr start' \<Rightarrow>
                 if \<not> (len \<ge> 0 \<and> int start' \<le> cur_size - len) then Inl IndexError
                 else
                   let strides = contiguous_strides (map nat (sizes t)) in
                   Inr \<lparr>view_storage = storage t,
                        view_offset = start' * (strides ! d),
                        view_sizes = (map nat (sizes t))[d := nat len],
                        view_strides = strides\<rparr>))"

text \<open>
  Modelled from the spec: \<^verbatim>\<open>fill_(value)\<close> and \<^verbatim>\<open>zero_()\<close>, the buffer fill and zero.
  \<^verbatim>\<open>fill_\<close> writes every cell the view addresses; \<^verbatim>\<open>zero_\<close> fills a whole buffer
  with zero.
\<close>

definition fill' :: "World \<Rightarrow> TensorView \<Rightarrow> int \<Rightarrow> World" where
  "fill' w v x =
     w\<lparr>heap := (heap w)(view_storage v :=
         fold (\<lambda>i st. st[i := Some x])
           (view_offsets (view_offset v) (view_sizes v) (view_strides v))
           (heap w (view_storage v)))\<rparr>"

definition zero' :: "World \<Rightarrow> Tensor \<Rightarrow> World" where
  "zero' w t = fill' w (whole t) 0"

text \<open>
  Modelled from the spec: \<^verbatim>\<open>ArrayRef::slice(N, M)\<close> (c10/util/ArrayRef.h, not part of the
  sources at hand): \<open>M\<close> elements from position \<open>N\<close>; the range is checked.
\<close>

definition slice :: "'a list \<Rightarrow> nat \<Rightarrow> nat \<Rightarrow> error + 'a list" where
  "slice xs N M = (if N + M \<le> length xs then Inr (take M (drop N xs)) else Inl IndexError)"

subsection \<open>The instance\<close>

text \<open>
  The fields of \<^verbatim>\<open>SparseCsrTensorImpl\<close> and those of its base \<^verbatim>\<open>TensorImpl\<close> that the
  file reads or writes.  \<open>data_type\<close> is the declared value type (\<^verbatim>\<open>dtype()\<close>, read
  through \<^verbatim>\<open>typeMetaToScalarType\<close>); \<open>sizes_and_strides'\<close> is the logical shape.
\<close>

record SparseCsrTensorImpl =
  key_set :: "DispatchKey set"
  data_type :: ScalarType
  device_opt :: Device
  sizes_and_strides' :: "int list"
  numel' :: int
  has_symbolic_sizes_strides' :: bool
  storage_access_should_throw' :: bool
  is_non_overlapping_and_dense' :: bool
  sizes_strides_policy' :: SizesStridesPolicy
  crow_indices' :: Tensor
  col_indices' :: Tensor
  values' :: Tensor
  layout' :: Layout

type_synonym state = "World \<times> SparseCsrTensorImpl"

type_synonym outcome = "(error \<times> state) + state"

text \<open>
  Modelled from the spec: the dispatch macros \<^verbatim>\<open>AT_DISPATCH_ROW_SPARSE_COMPRESSED_LAYOUTS\<close>
  and \<^verbatim>\<open>AT_DISPATCH_PLAIN_SPARSE_COMPRESSED_LAYOUTS\<close> (ATen/SparseCsrTensorUtils.h) are
  not part of the sources at hand.  The first selects its row action for the layouts that
  compress the row axis (CSR, BSR) and its column action for CSC and BSC; the second
  selects its first action for the plain layouts (CSR, CSC) and its block action for BSR
  and BSC.
\<close>

definition AT_DISPATCH_ROW_SPARSE_COMPRESSED_LAYOUTS :: "Layout \<Rightarrow> 'a \<Rightarrow> 'a \<Rightarrow> 'a" where
  "AT_DISPATCH_ROW_SPARSE_COMPRESSED_LAYOUTS the_layout row_action column_action =
     (case the_layout of
        kSparseCsr \<Rightarrow> row_action
      | kSparseBsr \<Rightarrow> row_action
      | kSparseCsc \<Rightarrow> column_action
      | kSparseBsc \<Rightarrow> column_action)"

definition AT_DISPATCH_PLAIN_SPARSE_COMPRESSED_LAYOUTS :: "Layout \<Rightarrow> 'a \<Rightarrow> 'a \<Rightarrow> 'a" where
  "AT_DISPATCH_PLAIN_SPARSE_COMPRESSED_LAYOUTS the_layout no_block_action block_action =
     (case the_layout of
        kSparseCsr \<Rightarrow> no_block_action
      | kSparseCsc \<Rightarrow> no_block_action
      | kSparseBsr \<Rightarrow> block_action
      | kSparseBsc \<Rightarrow> block_action)"

text \<open>
  Modelled from the spec: \<^verbatim>\<open>batch_dim()\<close> is declared in ATen/SparseCsrTensorImpl.h, not
  part of the sources at hand.  The compressed-index buffer has the shape
  \<open>batchShape + [n + 1]\<close>, so the number of batch dimensions of an instance is the rank of
  that buffer less one.
\<close>

definition batch_dim :: "SparseCsrTensorImpl \<Rightarrow> int" where
  "batch_dim self = int (length (sizes (crow_indices' self))) - 1"

definition refresh_numel :: "SparseCsrTensorImpl \<Rightarrow> SparseCsrTensorImpl" where
  "refresh_numel self = self\<lparr>numel' := prod_list (sizes_and_strides' self)\<rparr>"

subsection \<open>Construction\<close>

definition SparseCsrTensorSetToDeviceType :: "DispatchKey set \<Rightarrow> error + DeviceType" where
  "SparseCsrTensorSetToDeviceType ks =
     (if SparseCsrCPU \<in> ks then Inr kCPU
      else if SparseCsrCUDA \<in> ks then Inr kCUDA
      else Inl InvalidDeviceTag)"

text \<open>
  The constructor from three buffers (lines 53 to 78).  The advisory of
  \<^verbatim>\<open>TORCH_WARN_ONCE\<close> sets the flag \<open>beta_warned\<close> of the world.  The base constructor
  \<^verbatim>\<open>TensorImpl(key_set, data_type, device)\<close> is not part of the sources at hand; its
  effect is taken from the spec: the logical shape is \<open>[0, 0]\<close> and the shape is not
  symbolic.
\<close>

definition SparseCsrTensorImpl_from ::
  "World \<Rightarrow> DispatchKey set \<Rightarrow> ScalarType \<Rightarrow> Tensor \<Rightarrow> Tensor \<Rightarrow> Tensor \<Rightarrow> Layout
     \<Rightarrow> (error \<times> World) + state" where
  "SparseCsrTensorImpl_from w ks dt crow_indices col_indices vals layout =
     (let self =
        \<lparr>key_set = ks, data_type = dt, device_opt = device vals,
         sizes_and_strides' = [0, 0], numel' = 0, has_symbolic_sizes_strides' = False,
         storage_access_should_throw' = True, is_non_overlapping_and_dense' = False,
         sizes_strides_policy' = CustomStrides,
         crow_indices' = crow_indices, col_indices' = col_indices, values' = vals,
         layout' = layout\<rparr>;
        w' = w\<lparr>beta_warned := True\<rparr>
      in
        if device (values' self) \<noteq> device (crow_indices' self) then Inl (DeviceMismatch, w')
        else if device (values' self) \<noteq> device (col_indices' self) then Inl (DeviceMismatch, w')
        else Inr (w', self))"

text \<open>
  The empty constructor (lines 25 to 51): three buffers of shape \<open>[0]\<close> on the device of
  the dispatch key set, the two index buffers of type \<open>kInt\<close>, handed to the constructor
  above.  The options carry the device type alone, written as index \<open>-1\<close>.
\<close>

definition SparseCsrTensorImpl_empty ::
  "World \<Rightarrow> DispatchKey set \<Rightarrow> Layout \<Rightarrow> ScalarType \<Rightarrow> (error \<times> World) + state" where
  "SparseCsrTensorImpl_empty w ks layout dt =
     (case SparseCsrTensorSetToDeviceType ks of
        Inl e \<Rightarrow> Inl (e, w)
      | Inr dev \<Rightarrow>
          (case at_empty w [0] (Device dev (- 1)) kInt of
             Inl e \<Rightarrow> Inl (e, w)
           | Inr (w1, crow_indices) \<Rightarrow>
               (case at_empty w1 [0] (Device dev (- 1)) kInt of
                  Inl e \<Rightarrow> Inl (e, w1)
                | Inr (w2, col_indices) \<Rightarrow>
                    (case at_empty w2 [0] (Device dev (- 1)) dt of
                       Inl e \<Rightarrow> Inl (e, w2)
                     | Inr (w3, vals) \<Rightarrow>
                         SparseCsrTensorImpl_from w3 ks dt crow_indices col_indices vals
                           layout))))"

subsection \<open>Shape-preserving resize\<close>

text \<open>
  Lines 90 to 99: after the compressed-index buffer has its new shape, either the tail
  from the old last-axis length on is filled with \<open>nnz\<close>, or the last slot is set.
\<close>

definition fill_crow_indices ::
  "World \<Rightarrow> Tensor \<Rightarrow> int \<Rightarrow> int \<Rightarrow> int \<Rightarrow> int \<Rightarrow> error + World" where
  "fill_crow_indices w crow old_crow_indices_size rows cols nnz =
     (if rows + 1 \<ge> old_crow_indices_size then
        (case narrow crow (- 1) old_crow_indices_size (rows + 1 - old_crow_indices_size) of
           Inl e \<Rightarrow> Inl e
         | Inr v \<Rightarrow> Inr (fill' w v nnz))
      else
        (case narrow crow (- 1) rows 1 of
           Inl e \<Rightarrow> Inl e
         | Inr v \<Rightarrow> Inr (fill' w v (min nnz (int64_mul rows cols)))))"

text \<open>
  \<^verbatim>\<open>resize_(nnz, size)\<close>, lines 84 to 105.  \<^verbatim>\<open>size[size.size() - 2]\<close> on a shape of
  fewer than two dimensions reads out of range.  On a longer shape
  \<^verbatim>\<open>size.slice(0, size.size() - 2)\<close> is in range, and is written with \<open>take\<close>.  The
  member \<^verbatim>\<open>crow_indices_\<close> is resized in place, so a failure of a later step leaves the
  instance with the buffers resized so far.
\<close>

definition resize' :: "state \<Rightarrow> int \<Rightarrow> int list \<Rightarrow> outcome" where
  "resize' s nnz sz =
     (case s of (w, self) \<Rightarrow>
      if has_symbolic_sizes_strides' self then Inl (UnsupportedOnSymbolicShape, s)
      else if length sz < 2 then Inl (IndexError, s)
      else
       (let rows = sz ! (length sz - 2);
            cols = sz ! (length sz - 1)
        in
        case Tensor_size (crow_indices' self) (- 1) of
          Inl e \<Rightarrow> Inl (e, s)
        | Inr old_crow_indices_size \<Rightarrow>
            (let new_crow_indices_size = take (length sz - 2) sz @ [rows + 1] in
             case Tensor_resize' w (crow_indices' self) new_crow_indices_size of
               Inl e \<Rightarrow> Inl (e, s)
             | Inr (w1, crow) \<Rightarrow>
                 (let self1 = self\<lparr>crow_indices' := crow\<rparr> in
                  case fill_crow_indices w1 crow old_crow_indices_size rows cols nnz of
                    Inl e \<Rightarrow> Inl (e, (w1, self1))
                  | Inr w2 \<Rightarrow>
                      (let col_indices_values_size =
                             take (length sz - 2) sz @ [min nnz (int64_mul rows cols)]
                       in
                       case Tensor_resize' w2 (col_indices' self1) col_indices_values_size of
                         Inl e \<Rightarrow> Inl (e, (w2, self1))
                       | Inr (w3, col) \<Rightarrow>
                           (let self2 = self1\<lparr>col_indices' := col\<rparr> in
                            case Tensor_resize' w3 (values' self2) col_indices_values_size of
                              Inl e \<Rightarrow> Inl (e, (w3, self2))
                            | Inr (w4, vals) \<Rightarrow>
                                Inr (w4, self2\<lparr>values' := vals,
                                              sizes_and_strides' := sz\<rparr>)))))))"

subsection \<open>Destructive resize\<close>

text \<open>
  The block action of lines 132 to 136: the block shape is read from the values buffer
  the instance holds, two dimensions from position \<open>batch_dim() + 1\<close>; it is appended to
  the shape of the new values buffer, and the number of compressed groups is divided by
  the block edge (the first for BSR, the second for BSC).
\<close>

definition block_action ::
  "SparseCsrTensorImpl \<Rightarrow> int list \<Rightarrow> int \<Rightarrow> error + (int list \<times> int)" where
  "block_action self values_size n_compressed_indices =
     (case slice (sizes (values' self)) (nat (batch_dim self + 1)) 2 of
        Inl e \<Rightarrow> Inl e
      | Inr blocksize \<Rightarrow>
          let edge = blocksize ! (if layout' self = kSparseBsr then 0 else 1) in
          if edge = 0 then Inl DivisionByZero
          else Inr (values_size @ blocksize, n_compressed_indices sdiv edge))"

text \<open>
  \<^verbatim>\<open>resize_and_clear_(sparse_dim, size)\<close>, lines 107 to 146.  After the two argument
  checks the slices of \<^verbatim>\<open>size\<close> and the reads \<^verbatim>\<open>size[batch_dim]\<close> and
  \<^verbatim>\<open>size[batch_dim + 1]\<close> are in range; the slices are written with \<open>take\<close> and
  \<open>drop\<close>.
\<close>

definition resize_and_clear' :: "state \<Rightarrow> int \<Rightarrow> int list \<Rightarrow> outcome" where
  "resize_and_clear' s sparse_dim sz =
     (case s of (w, self) \<Rightarrow>
      if has_symbolic_sizes_strides' self then Inl (UnsupportedOnSymbolicShape, s)
      else if \<not> sparse_dim \<ge> 2 then Inl (InvalidArgument, s)
      else if \<not> int (length sz) \<ge> sparse_dim then Inl (InvalidArgument, s)
      else
       (let batch_dim = nat (sparse_dim - 2);
            batchsize = take batch_dim sz;
            densesize = take (length sz - batch_dim - 2) (drop (batch_dim + 2) sz);
            values_size = batchsize @ [0] @ densesize;
            col_indices_size = batchsize @ [0];
            n_compressed_indices =
              AT_DISPATCH_ROW_SPARSE_COMPRESSED_LAYOUTS (layout' self)
                (sz ! batch_dim) (sz ! (batch_dim + 1))
        in
        case AT_DISPATCH_PLAIN_SPARSE_COMPRESSED_LAYOUTS (layout' self)
               (Inr (values_size, n_compressed_indices))
               (block_action self values_size n_compressed_indices) of
          Inl e \<Rightarrow> Inl (e, s)
        | Inr (values_size, n_compressed_indices) \<Rightarrow>
            (let crow_indices_size = batchsize @ [n_compressed_indices + 1] in
             case Tensor_resize' w (crow_indices' self) crow_indices_size of
               Inl e \<Rightarrow> Inl (e, s)
             | Inr (w1, crow) \<Rightarrow>
                 (let self1 = self\<lparr>crow_indices' := crow\<rparr>;
                      w2 = zero' w1 crow
                  in
                  case Tensor_resize' w2 (col_indices' self1) col_indices_size of
                    Inl e \<Rightarrow> Inl (e, (w2, self1))
                  | Inr (w3, col) \<Rightarrow>
                      (let self2 = self1\<lparr>col_indices' := col\<rparr> in
                       case Tensor_resize' w3 (values' self2) values_size of
                         Inl e \<Rightarrow> Inl (e, (w3, self2))
                       | Inr (w4, vals) \<Rightarrow>
                           Inr (w4, refresh_numel
                                      (self2\<lparr>values' := vals,
                                             sizes_and_strides' := sz\<rparr>)))))))"

subsection \<open>Re-templating and member replacement\<close>

text \<open>
  \<^verbatim>\<open>resize_as_sparse_csr_tensor_(src)\<close>, lines 148 to 167.  Modelled from the spec: the
  accessors \<^verbatim>\<open>layout()\<close>, \<^verbatim>\<open>crow_indices()\<close>, \<^verbatim>\<open>col_indices()\<close>, \<^verbatim>\<open>values()\<close> and
  \<^verbatim>\<open>sizes()\<close> of the source tensor, and \<^verbatim>\<open>set_layout\<close>, are not part of the sources at
  hand; the source is a sparse compressed instance and the accessors read its fields.
\<close>

definition resize_as_sparse_csr_tensor' :: "state \<Rightarrow> SparseCsrTensorImpl \<Rightarrow> outcome" where
  "resize_as_sparse_csr_tensor' s src =
     (case s of (w, self) \<Rightarrow>
      if has_symbolic_sizes_strides' self then Inl (UnsupportedOnSymbolicShape, s)
      else
        let self1 = self\<lparr>layout' := layout' src\<rparr> in
        case at_empty_like w (crow_indices' src) of (w1, crow) \<Rightarrow>
       (case at_empty_like w1 (col_indices' src) of (w2, col) \<Rightarrow>
       (case at_empty_like w2 (values' src) of (w3, vals) \<Rightarrow>
          Inr (w3, refresh_numel
                     (self1\<lparr>crow_indices' := crow, col_indices' := col, values' := vals,
                            sizes_and_strides' := sizes_and_strides' src\<rparr>)))))"

text \<open>\<^verbatim>\<open>set_member_tensors(crow_indices, col_indices, values, size)\<close>, lines 169 to 199.\<close>

definition set_member_tensors ::
  "state \<Rightarrow> Tensor \<Rightarrow> Tensor \<Rightarrow> Tensor \<Rightarrow> int list \<Rightarrow> outcome" where
  "set_member_tensors s crow_indices col_indices vals sz =
     (case s of (w, self) \<Rightarrow>
      if has_symbolic_sizes_strides' self then Inl (UnsupportedOnSymbolicShape, s)
      else if scalar_type vals \<noteq> data_type self then Inl (TypeMismatch, s)
      else
        let self1 = refresh_numel
              (self\<lparr>crow_indices' := crow_indices, col_indices' := col_indices,
                    values' := vals, sizes_and_strides' := sz\<rparr>)
        in
        if device (values' self1) \<noteq> device (crow_indices' self1)
          then Inl (DeviceMismatch, (w, self1))
        else if device (values' self1) \<noteq> device (col_indices' self1)
          then Inl (DeviceMismatch, (w, self1))
        else Inr (w, self1))"

subsection \<open>Dense-shape queries\<close>

text \<open>Lines 201 to 218: each is a single \<^verbatim>\<open>TORCH_CHECK(false, ...)\<close>.\<close>

definition strides_custom :: "SparseCsrTensorImpl \<Rightarrow> error + int list" where
  "strides_custom self = Inl UnsupportedOperation"

definition sym_strides_custom :: "SparseCsrTensorImpl \<Rightarrow> error + int list" where
  "sym_strides_custom self = Inl UnsupportedOperation"

definition set_size :: "state \<Rightarrow> int \<Rightarrow> int \<Rightarrow> outcome" where
  "set_size s dim new_size = Inl (UnsupportedOperation, s)"

definition set_stride :: "state \<Rightarrow> int \<Rightarrow> int \<Rightarrow> outcome" where
  "set_stride s dim new_stride = Inl (UnsupportedOperation, s)"

definition set_storage_offset :: "state \<Rightarrow> int \<Rightarrow> outcome" where
  "set_storage_offset s storage_offset = Inl (UnsupportedOperation, s)"

definition is_contiguous_custom :: "SparseCsrTensorImpl \<Rightarrow> MemoryFormat \<Rightarrow> error + bool" where
  "is_contiguous_custom self memory_format = Inl UnsupportedOperation"

subsection \<open>Observing an outcome\<close>

text \<open>
  The error a call threw, if any, and the state it left: the state it returned, or the
  state reached when the exception left the member function.
\<close>

definition thrown :: "outcome \<Rightarrow> error option" where
  "thrown r = (case r of Inl (e, s) \<Rightarrow> Some e | Inr s \<Rightarrow> None)"

definition state_after :: "outcome \<Rightarrow> state" where
  "state_after r = (case r of Inl (e, s) \<Rightarrow> s | Inr s \<Rightarrow> s)"

subsection \<open>Concrete instances\<close>

text \<open>
  The inputs at which the theorems below are evaluated.  \<open>csr_2x3\<close> is a CSR matrix of
  shape \<open>[2, 3]\<close> with five stored entries and compressed indices \<open>[0, 2, 5]\<close>;
  \<open>batched_csr\<close> holds two such matrices, with compressed indices \<open>[0, 2, 5]\<close> and
  \<open>[0, 1, 3]\<close>; \<open>bsr_4x4\<close> is a BSR tensor of shape \<open>[4, 4, 5]\<close> with one stored block
  of shape \<open>[2, 2]\<close> and a dense tail \<open>[5]\<close>.
\<close>

definition empty_world :: World where
  "empty_world = \<lparr>heap = (\<lambda>a. []), next_storage = 0, beta_warned = False\<rparr>"

definition cpu :: Device where
  "cpu = Device kCPU (- 1)"

definition cuda0 :: Device where
  "cuda0 = Device kCUDA 0"

definition buffer :: "nat \<Rightarrow> int list \<Rightarrow> ScalarType \<Rightarrow> Device \<Rightarrow> Tensor" where
  "buffer a sz dt dev = \<lparr>storage = a, sizes = sz, scalar_type = dt, device = dev\<rparr>"

definition instance_of ::
  "Layout \<Rightarrow> Tensor \<Rightarrow> Tensor \<Rightarrow> Tensor \<Rightarrow> int list \<Rightarrow> SparseCsrTensorImpl" where
  "instance_of l crow col vals sz =
     \<lparr>key_set = {SparseCsrCPU}, data_type = kFloat, device_opt = cpu,
      sizes_and_strides' = sz, numel' = prod_list sz, has_symbolic_sizes_strides' = False,
      storage_access_should_throw' = True, is_non_overlapping_and_dense' = False,
      sizes_strides_policy' = CustomStrides,
      crow_indices' = crow, col_indices' = col, values' = vals, layout' = l\<rparr>"

definition csr_world :: World where
  "csr_world =
     \<lparr>heap = (\<lambda>a. [])(0 := map Some [0, 2, 5], 1 := map Some [0, 1, 0, 1, 2],
                       2 := map Some [1, 1, 1, 1, 1]),
      next_storage = 3, beta_warned = True\<rparr>"

definition csr_2x3 :: SparseCsrTensorImpl where
  "csr_2x3 =
     instance_of kSparseCsr (buffer 0 [3] kInt cpu) (buffer 1 [5] kInt cpu)
       (buffer 2 [5] kFloat cpu) [2, 3]"

definition symbolic_csr :: SparseCsrTensorImpl where
  "symbolic_csr = csr_2x3\<lparr>has_symbolic_sizes_strides' := True\<rparr>"

definition replacement_world :: World where
  "replacement_world =
     \<lparr>heap = (\<lambda>a. [])(0 := map Some [0, 2, 5], 1 := map Some [0, 1, 0, 1, 2],
                       2 := map Some [1, 1, 1, 1, 1],
                       3 := map Some [0, 1, 2], 4 := map Some [0, 1], 5 := map Some [7, 7]),
      next_storage = 6, beta_warned = True\<rparr>"

definition batched_world :: World where
  "batched_world =
     \<lparr>heap = (\<lambda>a. [])(0 := map Some [0, 2, 5, 0, 1, 3],
                       1 := map Some [0, 1, 0, 1, 2, 0, 1, 2, 0, 0],
                       2 := replicate 10 (Some 1)),
      next_storage = 3, beta_warned = True\<rparr>"

definition batched_csr :: SparseCsrTensorImpl where
  "batched_csr =
     instance_of kSparseCsr (buffer 0 [2, 3] kInt cpu) (buffer 1 [2, 5] kInt cpu)
       (buffer 2 [2, 5] kFloat cpu) [2, 2, 3]"

definition bsr_world :: World where
  "bsr_world =
     \<lparr>heap = (\<lambda>a. [])(0 := map Some [0, 1, 1], 1 := map Some [0],
                       2 := replicate 20 (Some 1)),
      next_storage = 3, beta_warned = True\<rparr>"

definition bsr_4x4 :: SparseCsrTensorImpl where
  "bsr_4x4 =
     instance_of kSparseBsr (buffer 0 [3] kInt cpu) (buffer 1 [1] kInt cpu)
       (buffer 2 [1, 2, 2, 5] kFloat cpu) [4, 4, 5]"

section \<open>Facts about the dense buffers\<close>

lemma returned: "thrown r = None \<Longrightarrow> r = Inr (fst (state_after r), snd (state_after r))"
  by (cases r) (auto simp: thrown_def state_after_def)

lemma offsets_union:
  "(\<Union>i\<in>{0..<n}. {off + i * p ..< off + i * p + p}) = {off ..< off + n * (p::nat)}"
proof (induction n)
  case 0
  then show ?case by simp
next
  case (Suc n)
  have "(\<Union>i\<in>{0..<Suc n}. {off + i * p ..< off + i * p + p})
        = (\<Union>i\<in>{0..<n}. {off + i * p ..< off + i * p + p}) \<union> {off + n * p ..< off + n * p + p}"
    by (simp add: atLeast0_lessThan_Suc Un_commute)
  also have "\<dots> = {off ..< off + n * p} \<union> {off + n * p ..< off + n * p + p}"
    by (simp only: Suc.IH)
  also have "\<dots> = {off ..< off + Suc n * p}"
    by (auto simp: add.commute add.left_commute)
  finally show ?case .
qed

text \<open>A contiguous view of shape \<open>ns\<close> addresses exactly \<open>prod_list ns\<close> cells in a row.\<close>

lemma set_view_offsets_contiguous:
  "set (view_offsets off ns (contiguous_strides ns)) = {off ..< off + prod_list ns}"
proof (induction ns arbitrary: off)
  case Nil
  then show ?case by auto
next
  case (Cons n ns)
  have "set (view_offsets off (n # ns) (contiguous_strides (n # ns)))
        = (\<Union>i\<in>{0..<n}. {off + i * prod_list ns ..< off + i * prod_list ns + prod_list ns})"
    by (simp add: Cons.IH)
  then show ?case
    by (simp only: offsets_union prod_list.Cons)
qed

lemma view_offsets_1d: "view_offsets off [n] [1] = [off ..< off + n]"
proof -
  have "concat (map (\<lambda>i. [off + i]) [0..<n]) = [off ..< off + n]"
    by (induction n) simp_all
  then show ?thesis by simp
qed

lemma length_fold_update:
  "length (fold (\<lambda>i st. st[i := v]) os st) = length st"
  by (induction os arbitrary: st) auto

lemma nth_fold_update:
  "i < length st \<Longrightarrow>
     fold (\<lambda>j st. st[j := v]) os st ! i = (if i \<in> set os then v else st ! i)"
  by (induction os arbitrary: st) (auto simp: nth_list_update length_fold_update)

lemma prod_list_map_nat:
  "\<not> list_ex (\<lambda>d. d < 0) sz \<Longrightarrow> prod_list (map nat sz) = nat (prod_list sz)"
proof (induction sz)
  case Nil
  then show ?case by simp
next
  case (Cons d sz)
  then have "0 \<le> d" and "prod_list (map nat sz) = nat (prod_list sz)"
    by auto
  then show ?case
    by (simp add: nat_mult_distrib)
qed

lemma numel_of_zero: "0 \<in> set sz \<Longrightarrow> numel_of sz = 0"
proof -
  assume "0 \<in> set sz"
  then have "prod_list sz = 0"
    by (simp add: prod_list_zero_iff)
  then show ?thesis
    by (simp add: numel_of_def)
qed

lemma entries_numel_zero: "numel_of (sizes t) = 0 \<Longrightarrow> entries w t = []"
  by (simp add: entries_def)

lemma entries_uninitialised:
  "heap w (storage t) = replicate (numel_of (sizes t)) None \<Longrightarrow>
     entries w t = replicate (numel_of (sizes t)) None"
  by (simp add: entries_def cell_at_def list_eq_iff_nth_eq)

text \<open>Zeroing a buffer that fits its storage leaves every entry zero.\<close>

lemma entries_zero':
  assumes "\<not> list_ex (\<lambda>d. d < 0) (sizes t)"
    and "numel_of (sizes t) \<le> length (heap w (storage t))"
  shows "entries (zero' w t) t = replicate (numel_of (sizes t)) (Some 0)"
proof -
  let ?n = "numel_of (sizes t)"
  let ?st = "heap w (storage t)"
  let ?os = "view_offsets 0 (map nat (sizes t)) (contiguous_strides (map nat (sizes t)))"
  have os: "set ?os = {0..<?n}"
    using assms(1) by (simp add: set_view_offsets_contiguous prod_list_map_nat numel_of_def)
  have h: "heap (zero' w t) (storage t) = fold (\<lambda>i st. st[i := Some 0]) ?os ?st"
    by (simp add: zero'_def fill'_def whole_def)
  have "cell_at (heap (zero' w t) (storage t)) i = Some 0" if "i < ?n" for i
    using that assms(2) os by (simp add: h cell_at_def length_fold_update nth_fold_update)
  then show ?thesis
    by (simp add: entries_def list_eq_iff_nth_eq)
qed

lemma cell_at_fill':
  "cell_at (heap (fill' w v x) a) i =
     (if a = view_storage v \<and> i < length (heap w a)
         \<and> i \<in> set (view_offsets (view_offset v) (view_sizes v) (view_strides v))
      then Some x else cell_at (heap w a) i)"
  by (simp add: fill'_def cell_at_def length_fold_update nth_fold_update)

lemma Tensor_resize'_Inr:
  assumes "Tensor_resize' w t sz = Inr (w', t')"
  shows "t' = t\<lparr>sizes := sz\<rparr>"
    and "\<not> list_ex (\<lambda>d. d < 0) sz"
    and "numel_of sz \<le> length (heap w' (storage t))"
    and "numel_of sz = 0 \<Longrightarrow> w' = w"
  using assms by (auto simp: Tensor_resize'_def Let_def split: if_splits)

text \<open>Resizing a buffer changes no cell that any storage held.\<close>

lemma cell_at_Tensor_resize':
  assumes "Tensor_resize' w t sz = Inr (w', t')"
  shows "cell_at (heap w' a) i = cell_at (heap w a) i"
  using assms
  by (auto simp: Tensor_resize'_def Let_def cell_at_def nth_append split: if_splits)

lemma narrow_1d:
  assumes "sizes t = [cur]" and "0 \<le> start" and "0 \<le> len" and "start + len \<le> cur"
  shows "narrow t (- 1) start len =
           Inr \<lparr>view_storage = storage t, view_offset = nat start,
                view_sizes = [nat len], view_strides = [1]\<rparr>"
  using assms by (auto simp: narrow_def maybe_wrap_dim_def Let_def)

lemma at_empty_Inr:
  assumes "at_empty w sz dev dt = Inr (w', t)"
  shows "t = \<lparr>storage = next_storage w, sizes = sz, scalar_type = dt, device = dev\<rparr>"
    and "heap w' = (heap w)(next_storage w := replicate (numel_of sz) None)"
    and "next_storage w' = Suc (next_storage w)"
  using assms by (auto simp: at_empty_def Let_def split: if_splits)

lemma at_empty_like_props:
  assumes "at_empty_like w t = (w', t')"
  shows "t' = t\<lparr>storage := next_storage w\<rparr>"
    and "next_storage w' = Suc (next_storage w)"
    and "heap w' = (heap w)(next_storage w := replicate (numel_of (sizes t)) None)"
  using assms by (auto simp: at_empty_like_def Let_def)

section \<open>Facts about the member functions\<close>

lemma row_dispatch_cases:
  "AT_DISPATCH_ROW_SPARSE_COMPRESSED_LAYOUTS l a b =
     (case l of kSparseCsr \<Rightarrow> a | kSparseCsc \<Rightarrow> b | kSparseBsr \<Rightarrow> a | kSparseBsc \<Rightarrow> b)"
  by (cases l) (simp_all add: AT_DISPATCH_ROW_SPARSE_COMPRESSED_LAYOUTS_def)

lemma plain_dispatch_Inr:
  assumes "AT_DISPATCH_PLAIN_SPARSE_COMPRESSED_LAYOUTS (layout' self) (Inr (vs, n))
             (block_action self vs n) = Inr (vs', n')"
  shows "(\<exists>tl. vs' = vs @ tl)
       \<and> n' = (case layout' self of
                 kSparseCsr \<Rightarrow> n
               | kSparseCsc \<Rightarrow> n
               | kSparseBsr \<Rightarrow> n sdiv (sizes (values' self) ! nat (batch_dim self + 1))
               | kSparseBsc \<Rightarrow> n sdiv (sizes (values' self) ! (nat (batch_dim self + 1) + 1)))"
  using assms
  by (cases "layout' self")
     (auto simp: AT_DISPATCH_PLAIN_SPARSE_COMPRESSED_LAYOUTS_def block_action_def slice_def
        Let_def nth_append split: if_splits sum.splits)

text \<open>What a returning \<open>resize_and_clear'\<close> went through.\<close>

lemma resize_and_clear'_Inr:
  assumes "resize_and_clear' (w, self) sparse_dim sz = Inr (w', self')"
  obtains vs n w1 crow w3 col vals where
    "\<not> has_symbolic_sizes_strides' self" "2 \<le> sparse_dim" "sparse_dim \<le> int (length sz)"
    "AT_DISPATCH_PLAIN_SPARSE_COMPRESSED_LAYOUTS (layout' self)
       (Inr (take (nat (sparse_dim - 2)) sz @ [0]
               @ take (length sz - nat (sparse_dim - 2) - 2) (drop (nat (sparse_dim - 2) + 2) sz),
             AT_DISPATCH_ROW_SPARSE_COMPRESSED_LAYOUTS (layout' self)
               (sz ! nat (sparse_dim - 2)) (sz ! (nat (sparse_dim - 2) + 1))))
       (block_action self
          (take (nat (sparse_dim - 2)) sz @ [0]
             @ take (length sz - nat (sparse_dim - 2) - 2) (drop (nat (sparse_dim - 2) + 2) sz))
          (AT_DISPATCH_ROW_SPARSE_COMPRESSED_LAYOUTS (layout' self)
             (sz ! nat (sparse_dim - 2)) (sz ! (nat (sparse_dim - 2) + 1))))
     = Inr (vs, n)"
    "Tensor_resize' w (crow_indices' self) (take (nat (sparse_dim - 2)) sz @ [n + 1]) = Inr (w1, crow)"
    "Tensor_resize' (zero' w1 crow) (col_indices' self) (take (nat (sparse_dim - 2)) sz @ [0])
       = Inr (w3, col)"
    "Tensor_resize' w3 (values' self) vs = Inr (w', vals)"
    "self' = refresh_numel (self\<lparr>crow_indices' := crow, col_indices' := col, values' := vals,
                sizes_and_strides' := sz\<rparr>)"
  using assms
  by (auto simp: resize_and_clear'_def Let_def split: if_splits sum.splits prod.splits)

text \<open>
  \<open>set_member_tensors\<close> checks the value type before it assigns anything: a call that
  fails this check leaves the instance as it was.
\<close>

lemma set_member_tensors_type_mismatch:
  assumes "\<not> has_symbolic_sizes_strides' self" and "scalar_type vals \<noteq> data_type self"
  shows "set_member_tensors (w, self) crow_indices col_indices vals sz
           = Inl (TypeMismatch, (w, self))"
  using assms by (simp add: set_member_tensors_def)

text \<open>
  Without batch dimensions, a growing \<open>resize'\<close> keeps the entries the compressed-index
  buffer had and appends entries that hold \<open>nnz\<close>.
\<close>

lemma resize_grow_unbatched:
  assumes ok: "resize' (w, self) nnz [rows, cols] = Inr (w', self')"
    and old: "sizes (crow_indices' self) = [old]" "0 \<le> old" "old \<le> rows + 1"
  shows "sizes (crow_indices' self') = [rows + 1]
       \<and> entries w' (crow_indices' self')
           = entries w (crow_indices' self) @ replicate (nat (rows + 1 - old)) (Some nnz)"
proof -
  let ?crow = "crow_indices' self"
  have size: "Tensor_size ?crow (- 1) = Inr old"
    by (simp add: Tensor_size_def maybe_wrap_dim_def old)
  from ok size old obtain w1 crow w2 w3 col vals where
    r1: "Tensor_resize' w ?crow [rows + 1] = Inr (w1, crow)"
    and f: "fill_crow_indices w1 crow old rows cols nnz = Inr w2"
    and r2: "Tensor_resize' w2 (col_indices' self) [min nnz (int64_mul rows cols)] = Inr (w3, col)"
    and r3: "Tensor_resize' w3 (values' self) [min nnz (int64_mul rows cols)] = Inr (w', vals)"
    and self': "crow_indices' self' = crow"
    by (auto simp: resize'_def Let_def split: if_splits sum.splits prod.splits)
  have crow: "crow = ?crow\<lparr>sizes := [rows + 1]\<rparr>"
    and cap: "numel_of [rows + 1] \<le> length (heap w1 (storage ?crow))"
    using Tensor_resize'_Inr [OF r1] by simp_all
  have nar: "narrow crow (- 1) old (rows + 1 - old) =
               Inr \<lparr>view_storage = storage ?crow, view_offset = nat old,
                    view_sizes = [nat (rows + 1 - old)], view_strides = [1]\<rparr>"
    using old narrow_1d [of crow "rows + 1" old "rows + 1 - old"] by (simp add: crow)
  from f old have w2: "w2 = fill' w1 \<lparr>view_storage = storage ?crow, view_offset = nat old,
                    view_sizes = [nat (rows + 1 - old)], view_strides = [1]\<rparr> nnz"
    by (simp add: fill_crow_indices_def nar)
  have n: "numel_of [rows + 1] = nat (rows + 1)" "numel_of [old] = nat old"
    by (simp_all add: numel_of_def)
  have cell: "cell_at (heap w' (storage ?crow)) i =
                (if nat old \<le> i then Some nnz else cell_at (heap w (storage ?crow)) i)"
    if "i < nat (rows + 1)" for i
  proof -
    have "cell_at (heap w' (storage ?crow)) i = cell_at (heap w2 (storage ?crow)) i"
      by (simp add: cell_at_Tensor_resize' [OF r3] cell_at_Tensor_resize' [OF r2])
    also have "\<dots> = (if nat old \<le> i then Some nnz else cell_at (heap w1 (storage ?crow)) i)"
      using that cap old by (auto simp: w2 cell_at_fill' view_offsets_1d n)
    finally show ?thesis
      by (simp add: cell_at_Tensor_resize' [OF r1])
  qed
  have split: "[0..<nat (rows + 1)] = [0..<nat old] @ [nat old..<nat (rows + 1)]"
    using old by (metis le_add_diff_inverse nat_mono upt_add_eq_append zero_le)
  have lo: "map (cell_at (heap w' (storage ?crow))) [0..<nat old]
              = map (cell_at (heap w (storage ?crow))) [0..<nat old]"
    using cell old by (intro map_cong) auto
  have hi: "map (cell_at (heap w' (storage ?crow))) [nat old..<nat (rows + 1)]
              = map (\<lambda>i. Some nnz) [nat old..<nat (rows + 1)]"
    using cell by (intro map_cong) auto
  have "entries w' crow =
          map (cell_at (heap w (storage ?crow))) [0..<nat old]
            @ map (\<lambda>i. Some nnz) [nat old..<nat (rows + 1)]"
    by (simp add: entries_def crow n split lo hi)
  moreover have "map (\<lambda>i. Some nnz) [nat old..<nat (rows + 1)]
                   = replicate (nat (rows + 1 - old)) (Some nnz)"
    using old by (simp add: map_replicate_const nat_diff_distrib)
  ultimately show ?thesis
    by (simp add: self' entries_def old n crow)
qed

section \<open>Facts about the last axis\<close>

text \<open>Within 64 bits the wrapped product is the product.\<close>

lemma int64_wrap_in_range:
  "- (2 ^ 63) \<le> x \<Longrightarrow> x < 2 ^ 63 \<Longrightarrow> int64_wrap x = x"
  by (simp add: int64_wrap_def)

lemma int64_mul_in_range:
  "- (2 ^ 63) \<le> a * b \<Longrightarrow> a * b < 2 ^ 63 \<Longrightarrow> int64_mul a b = a * b"
  by (simp add: int64_mul_def int64_wrap_in_range)











section \<open>The claims\<close>

subsection \<open>C1: a failing member replacement\<close>

text \<open>
  C1 says that a call to \<open>set_member_tensors\<close> that fails, with \<open>TypeMismatch\<close> or with
  \<open>DeviceMismatch\<close>, leaves the buffers and the logical shape of the instance untouched.
  The value type is checked before the assignments (lemma
  \<open>set_member_tensors_type_mismatch\<close>), but the two device checks of lines 197 and 198
  come after them.  Evaluated on \<open>csr_2x3\<close> with index buffers on the CPU and a values
  buffer on a CUDA device, the call throws \<open>DeviceMismatch\<close> and the instance holds the
  three new buffers and the new shape \<open>[2, 2]\<close>.
\<close>

theorem set_member_tensors_device_mismatch_mutates:
  "(let r = set_member_tensors (replacement_world, csr_2x3) (buffer 3 [3] kInt cpu)
              (buffer 4 [2] kInt cpu) (buffer 5 [2] kFloat cuda0) [2, 2];
        self' = snd (state_after r)
    in thrown r = Some DeviceMismatch
       \<and> crow_indices' csr_2x3 = buffer 0 [3] kInt cpu
       \<and> crow_indices' self' = buffer 3 [3] kInt cpu
       \<and> col_indices' csr_2x3 = buffer 1 [5] kInt cpu
       \<and> col_indices' self' = buffer 4 [2] kInt cpu
       \<and> values' csr_2x3 = buffer 2 [5] kFloat cpu
       \<and> values' self' = buffer 5 [2] kFloat cuda0
       \<and> sizes_and_strides' csr_2x3 = [2, 3]
       \<and> sizes_and_strides' self' = [2, 2])"
  by code_simp

subsection \<open>C2: the last compressed index after a resize\<close>




subsection \<open>C3: the destructive resize clears the instance\<close>

text \<open>
  C3.  Whenever \<open>resize_and_clear'\<close> returns, the plain-index buffer has the shape
  \<open>batchsize + [0]\<close> and no entry, the values buffer has length \<open>0\<close> along its entries
  axis and no entry, and the compressed-index buffer has the shape
  \<open>batchsize + [groups + 1]\<close> with every entry zero.  Here \<open>batchsize\<close> is the first
  \<open>sparse_dim - 2\<close> dimensions of the new shape and \<open>groups\<close> is the row dimension of
  the new shape for CSR, the column dimension for CSC, and for BSR and BSC these divided
  (truncating) by the first and the second block edge, which are read from the values
  buffer the instance held before the call.  Nothing is assumed about the prior contents.
\<close>

theorem resize_and_clear_clears:
  assumes "resize_and_clear' (w, self) sparse_dim sz = Inr (w', self')"
  shows "sizes (col_indices' self') = take (nat (sparse_dim - 2)) sz @ [0]
       \<and> entries w' (col_indices' self') = []
       \<and> sizes (values' self') ! nat (sparse_dim - 2) = 0
       \<and> entries w' (values' self') = []
       \<and> sizes (crow_indices' self') =
           take (nat (sparse_dim - 2)) sz @
             [(case layout' self of
                 kSparseCsr \<Rightarrow> sz ! nat (sparse_dim - 2)
               | kSparseCsc \<Rightarrow> sz ! (nat (sparse_dim - 2) + 1)
               | kSparseBsr \<Rightarrow>
                   (sz ! nat (sparse_dim - 2))
                     sdiv (sizes (values' self) ! nat (batch_dim self + 1))
               | kSparseBsc \<Rightarrow>
                   (sz ! (nat (sparse_dim - 2) + 1))
                     sdiv (sizes (values' self) ! (nat (batch_dim self + 1) + 1))) + 1]
       \<and> entries w' (crow_indices' self') =
           replicate (numel_of (sizes (crow_indices' self'))) (Some 0)"
proof -
  let ?bd = "nat (sparse_dim - 2)"
  from assms obtain vs n w1 crow w3 col vals where
    dims: "2 \<le> sparse_dim" "sparse_dim \<le> int (length sz)"
    and disp: "AT_DISPATCH_PLAIN_SPARSE_COMPRESSED_LAYOUTS (layout' self)
       (Inr (take ?bd sz @ [0] @ take (length sz - ?bd - 2) (drop (?bd + 2) sz),
             AT_DISPATCH_ROW_SPARSE_COMPRESSED_LAYOUTS (layout' self)
               (sz ! ?bd) (sz ! (?bd + 1))))
       (block_action self
          (take ?bd sz @ [0] @ take (length sz - ?bd - 2) (drop (?bd + 2) sz))
          (AT_DISPATCH_ROW_SPARSE_COMPRESSED_LAYOUTS (layout' self)
             (sz ! ?bd) (sz ! (?bd + 1))))
     = Inr (vs, n)"
    and r1: "Tensor_resize' w (crow_indices' self) (take ?bd sz @ [n + 1]) = Inr (w1, crow)"
    and r2: "Tensor_resize' (zero' w1 crow) (col_indices' self) (take ?bd sz @ [0]) = Inr (w3, col)"
    and r3: "Tensor_resize' w3 (values' self) vs = Inr (w', vals)"
    and self': "self' = refresh_numel (self\<lparr>crow_indices' := crow, col_indices' := col,
                  values' := vals, sizes_and_strides' := sz\<rparr>)"
    by (rule resize_and_clear'_Inr)
  have len: "length (take ?bd sz) = ?bd"
    using dims by simp
  from plain_dispatch_Inr [OF disp] obtain tl where
    vs: "vs = (take ?bd sz @ [0] @ take (length sz - ?bd - 2) (drop (?bd + 2) sz)) @ tl"
    and n: "n = (case layout' self of
                 kSparseCsr \<Rightarrow> sz ! ?bd
               | kSparseCsc \<Rightarrow> sz ! (?bd + 1)
               | kSparseBsr \<Rightarrow> (sz ! ?bd) sdiv (sizes (values' self) ! nat (batch_dim self + 1))
               | kSparseBsc \<Rightarrow>
                   (sz ! (?bd + 1)) sdiv (sizes (values' self) ! (nat (batch_dim self + 1) + 1)))"
    by (cases "layout' self") (auto simp: row_dispatch_cases)
  have crow: "crow = (crow_indices' self)\<lparr>sizes := take ?bd sz @ [n + 1]\<rparr>"
    and crow_nonneg: "\<not> list_ex (\<lambda>d. d < 0) (take ?bd sz @ [n + 1])"
    and crow_cap: "numel_of (take ?bd sz @ [n + 1]) \<le> length (heap w1 (storage (crow_indices' self)))"
    using Tensor_resize'_Inr [OF r1] by simp_all
  have col: "col = (col_indices' self)\<lparr>sizes := take ?bd sz @ [0]\<rparr>"
    using Tensor_resize'_Inr(1) [OF r2] .
  have col0: "numel_of (take ?bd sz @ [0]) = 0"
    by (rule numel_of_zero) simp
  have w3: "w3 = zero' w1 crow"
    using Tensor_resize'_Inr(4) [OF r2 col0] .
  have vals: "vals = (values' self)\<lparr>sizes := vs\<rparr>"
    using Tensor_resize'_Inr(1) [OF r3] .
  have vs0: "numel_of vs = 0"
    by (rule numel_of_zero) (simp add: vs)
  have w': "w' = zero' w1 crow"
    using Tensor_resize'_Inr(4) [OF r3 vs0] w3 by simp
  have vs_nth: "vs ! ?bd = 0"
    using len by (simp add: vs nth_append)
  have zeroed: "entries (zero' w1 crow) crow = replicate (numel_of (sizes crow)) (Some 0)"
    by (rule entries_zero') (use crow_nonneg crow_cap in \<open>simp_all add: crow\<close>)
  show ?thesis
    using zeroed vs_nth col0 vs0
    by (simp add: self' refresh_numel_def col vals w' entries_numel_zero)
       (simp add: crow n)
qed

text \<open>
  The scenario of the spec: \<open>resize_and_clear'\<close> with two sparse dimensions and the shape
  \<open>[5, 5]\<close> on a BSR instance whose blocks have the shape \<open>[2, 2]\<close> returns, with a values
  buffer of shape \<open>[0, 2, 2]\<close> and three compressed indices, all zero.
\<close>

theorem resize_and_clear_clears_witness:
  "(let r = resize_and_clear' (bsr_world, bsr_4x4) 2 [5, 5];
        w' = fst (state_after r); self' = snd (state_after r)
    in r = Inr (w', self')
       \<and> sizes (col_indices' self') = [0]
       \<and> entries w' (col_indices' self') = []
       \<and> sizes (values' self') = [0, 2, 2]
       \<and> entries w' (values' self') = []
       \<and> sizes (crow_indices' self') = [3]
       \<and> entries w' (crow_indices' self') = [Some 0, Some 0, Some 0])"
proof -
  let ?r = "resize_and_clear' (bsr_world, bsr_4x4) 2 [5, 5]"
  have "thrown ?r = None"
    by code_simp
  then have h: "?r = Inr (fst (state_after ?r), snd (state_after ?r))"
    by (rule returned)
  have v: "sizes (values' (snd (state_after ?r))) = [0, 2, 2]"
    by code_simp
  have g: "take (nat (2 - 2)) [5, 5 :: int] = []
         \<and> (case layout' bsr_4x4 of
               kSparseCsr \<Rightarrow> [5, 5] ! nat (2 - 2)
             | kSparseCsc \<Rightarrow> [5, 5] ! (nat (2 - 2) + 1)
             | kSparseBsr \<Rightarrow>
                 ([5, 5] ! nat (2 - 2)) sdiv (sizes (values' bsr_4x4) ! nat (batch_dim bsr_4x4 + 1))
             | kSparseBsc \<Rightarrow>
                 ([5, 5] ! (nat (2 - 2) + 1))
                   sdiv (sizes (values' bsr_4x4) ! (nat (batch_dim bsr_4x4 + 1) + 1))) + 1 = 3
         \<and> replicate (numel_of [3]) (Some (0::int)) = [Some 0, Some 0, Some 0]"
    by code_simp
  show ?thesis
    using h v g resize_and_clear_clears [OF h] by (simp add: Let_def)
qed

subsection \<open>C4: empty construction\<close>

text \<open>
  C4, amended.  Whenever the empty constructor returns an instance, each of its three
  buffers has the shape \<open>[0]\<close> and no entry; the two index buffers have the type
  \<open>kInt\<close>, the values buffer has the requested value type, and the three buffers are on
  the one device that the dispatch key set selects.
\<close>

theorem empty_construction_buffers:
  assumes "SparseCsrTensorImpl_empty w ks layout dt = Inr (w', self)"
  shows "sizes (crow_indices' self) = [0] \<and> entries w' (crow_indices' self) = []
       \<and> sizes (col_indices' self) = [0] \<and> entries w' (col_indices' self) = []
       \<and> sizes (values' self) = [0] \<and> entries w' (values' self) = []
       \<and> scalar_type (crow_indices' self) = kInt \<and> scalar_type (col_indices' self) = kInt
       \<and> scalar_type (values' self) = dt
       \<and> SparseCsrTensorSetToDeviceType ks = Inr (case device (values' self) of Device ty ix \<Rightarrow> ty)
       \<and> device (crow_indices' self) = device (values' self)
       \<and> device (col_indices' self) = device (values' self)"
proof -
  from assms obtain dev w1 crow w2 col w3 vals where
    dev: "SparseCsrTensorSetToDeviceType ks = Inr dev"
    and a1: "at_empty w [0] (Device dev (- 1)) kInt = Inr (w1, crow)"
    and a2: "at_empty w1 [0] (Device dev (- 1)) kInt = Inr (w2, col)"
    and a3: "at_empty w2 [0] (Device dev (- 1)) dt = Inr (w3, vals)"
    and c: "SparseCsrTensorImpl_from w3 ks dt crow col vals layout = Inr (w', self)"
    by (auto simp: SparseCsrTensorImpl_empty_def split: sum.splits prod.splits)
  from c have self: "crow_indices' self = crow" "col_indices' self = col" "values' self = vals"
    by (auto simp: SparseCsrTensorImpl_from_def Let_def split: if_splits)
  have n0: "numel_of [0] = 0"
    by (simp add: numel_of_def)
  show ?thesis
    using dev by (simp add: self at_empty_Inr(1) [OF a1] at_empty_Inr(1) [OF a2]
        at_empty_Inr(1) [OF a3] entries_def n0)
qed

text \<open>
  Empty construction of a CSR instance of value type \<open>kFloat\<close> for the CPU returns, with
  three buffers of shape \<open>[0]\<close>.
\<close>

theorem empty_construction_buffers_witness:
  "(let c = SparseCsrTensorImpl_empty empty_world {SparseCsrCPU} kSparseCsr kFloat;
        w' = fst (projr c); self = snd (projr c)
    in c = Inr (w', self)
       \<and> sizes (crow_indices' self) = [0] \<and> entries w' (crow_indices' self) = []
       \<and> sizes (col_indices' self) = [0] \<and> entries w' (col_indices' self) = []
       \<and> sizes (values' self) = [0] \<and> entries w' (values' self) = []
       \<and> scalar_type (crow_indices' self) = kInt \<and> scalar_type (col_indices' self) = kInt
       \<and> scalar_type (values' self) = kFloat
       \<and> device (values' self) = Device kCPU (- 1)
       \<and> device (crow_indices' self) = Device kCPU (- 1)
       \<and> device (col_indices' self) = Device kCPU (- 1))"
proof -
  let ?c = "SparseCsrTensorImpl_empty empty_world {SparseCsrCPU} kSparseCsr kFloat"
  have "\<not> isl ?c"
    by code_simp
  then have h: "?c = Inr (fst (projr ?c), snd (projr ?c))"
    by (cases ?c) simp_all
  have d: "device (values' (snd (projr ?c))) = Device kCPU (- 1)"
    by code_simp
  show ?thesis
    using h d empty_construction_buffers [OF h] by (simp add: Let_def)
qed

text \<open>
  C4 as stated fails: the compressed-index buffer of an empty CSR instance does not have
  the shape \<open>[1]\<close>, and its entries are not \<open>[0]\<close>.
\<close>

theorem empty_construction_counterexample:
  "(let c = SparseCsrTensorImpl_empty empty_world {SparseCsrCPU} kSparseCsr kFloat
    in \<not> isl c
       \<and> sizes (crow_indices' (snd (projr c))) \<noteq> [1]
       \<and> entries (fst (projr c)) (crow_indices' (snd (projr c))) \<noteq> [Some 0])"
  by code_simp

subsection \<open>C5: growing the compressed-index buffer\<close>

text \<open>
  C5 says that a growing \<open>resize'\<close> keeps every entry the compressed-index buffer had
  and writes only the appended tail, with \<open>nnz\<close>.  Without batch dimensions this holds
  (lemma \<open>resize_grow_unbatched\<close>; from \<open>[0, 2, 5]\<close>, two more rows and \<open>nnz = 5\<close> give
  \<open>[0, 2, 5, 5, 5]\<close>).  With batch dimensions the buffer is resized in place and the
  tail of each batch is filled in the new shape: evaluated on \<open>batched_csr\<close>, whose two
  batches hold \<open>[0, 2, 5]\<close> and \<open>[0, 1, 3]\<close>, growing from two to four rows with
  \<open>nnz = 5\<close> overwrites the entries \<open>0\<close> and \<open>1\<close> of the second batch and leaves that
  batch with \<open>[3, uninitialised, uninitialised, 5, 5]\<close>.
\<close>

theorem resize_grow_batched_overwrites:
  "(let r = resize' (batched_world, batched_csr) 5 [2, 4, 3];
        w' = fst (state_after r); self' = snd (state_after r)
    in thrown r = None
       \<and> sizes (crow_indices' batched_csr) = [2, 3]
       \<and> entries batched_world (crow_indices' batched_csr)
           = [Some 0, Some 2, Some 5, Some 0, Some 1, Some 3]
       \<and> sizes (crow_indices' self') = [2, 5]
       \<and> entries w' (crow_indices' self')
           = [Some 0, Some 2, Some 5, Some 5, Some 5, Some 3, None, None, Some 5, Some 5])"
  by code_simp

subsection \<open>C6: the shape of the values buffer after a destructive resize\<close>

text \<open>
  C6 says that after \<open>resize_and_clear'\<close> on a block layout the values buffer has the
  shape \<open>batchShape + [0] + blockShape + denseTail\<close>.  Lines 118 to 120 append the dense
  tail before the block action of line 134 appends the block shape.  Evaluated on
  \<open>bsr_4x4\<close>, whose values buffer has the shape \<open>[1, 2, 2, 5]\<close> (one block of shape
  \<open>[2, 2]\<close>, dense tail \<open>[5]\<close>), the call with the shape \<open>[4, 4, 5]\<close> leaves a values
  buffer of shape \<open>[0, 5, 2, 2]\<close>, not \<open>[0, 2, 2, 5]\<close>.
\<close>

theorem resize_and_clear_block_after_dense:
  "(let r = resize_and_clear' (bsr_world, bsr_4x4) 2 [4, 4, 5];
        self' = snd (state_after r)
    in thrown r = None
       \<and> layout' bsr_4x4 = kSparseBsr
       \<and> sizes (values' bsr_4x4) = [1, 2, 2, 5]
       \<and> sizes (values' self') = [0, 5, 2, 2]
       \<and> sizes (values' self') \<noteq> [] @ [0] @ [2, 2] @ [5])"
  by code_simp

subsection \<open>C7: dense-shape queries are rejected\<close>

text \<open>
  C7.  Every strides query, every element-level size or stride mutation, every
  storage-offset mutation and every contiguity query fails with \<open>UnsupportedOperation\<close>,
  whatever the instance and the arguments; a mutator leaves the state as it was.
\<close>

theorem dense_queries_rejected:
  "strides_custom self = Inl UnsupportedOperation
   \<and> sym_strides_custom self = Inl UnsupportedOperation
   \<and> set_size (w, self) dim new_size = Inl (UnsupportedOperation, (w, self))
   \<and> set_stride (w, self) dim new_stride = Inl (UnsupportedOperation, (w, self))
   \<and> set_storage_offset (w, self) offset = Inl (UnsupportedOperation, (w, self))
   \<and> is_contiguous_custom self memory_format = Inl UnsupportedOperation"
  by (simp add: strides_custom_def sym_strides_custom_def set_size_def set_stride_def
      set_storage_offset_def is_contiguous_custom_def)

subsection \<open>C8: the argument checks of the destructive resize\<close>

text \<open>
  C8, amended.  Whenever \<open>sparse_dim < 2\<close> or the new shape has fewer than \<open>sparse_dim\<close>
  dimensions, \<open>resize_and_clear'\<close> fails and leaves the state as it was; the error is
  \<open>InvalidArgument\<close> on an instance whose shape is not symbolic, and
  \<open>UnsupportedOnSymbolicShape\<close> on one whose shape is symbolic, which is rejected first.
\<close>

theorem resize_and_clear_argument_check:
  assumes "sparse_dim < 2 \<or> int (length sz) < sparse_dim"
  shows "resize_and_clear' (w, self) sparse_dim sz =
           Inl (if has_symbolic_sizes_strides' self then UnsupportedOnSymbolicShape
                else InvalidArgument, (w, self))"
  using assms by (auto simp: resize_and_clear'_def)

text \<open>One sparse dimension on \<open>csr_2x3\<close>: \<open>InvalidArgument\<close>, and the state is unchanged.\<close>

theorem resize_and_clear_argument_check_witness:
  "((1::int) < 2 \<or> int (length [2, 3::int]) < 1)
   \<and> resize_and_clear' (csr_world, csr_2x3) 1 [2, 3] = Inl (InvalidArgument, (csr_world, csr_2x3))"
proof -
  have h: "(1::int) < 2 \<or> int (length [2, 3::int]) < 1"
    by simp
  show ?thesis
    using h resize_and_clear_argument_check [OF h, of csr_world csr_2x3]
    by (simp add: csr_2x3_def instance_of_def)
qed

text \<open>
  C8 as stated fails on an instance whose shape is symbolic: with one sparse dimension
  the call does not fail with \<open>InvalidArgument\<close>.
\<close>

theorem resize_and_clear_symbolic_counterexample:
  "(1::int) < 2
   \<and> thrown (resize_and_clear' (csr_world, symbolic_csr) 1 [2, 3]) \<noteq> Some InvalidArgument"
  by (simp add: resize_and_clear'_def symbolic_csr_def thrown_def)

subsection \<open>C9: re-templating\<close>

text \<open>
  C9.  Whenever \<open>resize_as_sparse_csr_tensor'\<close> returns, the instance has the layout and
  the logical shape of the source, and each of its three buffers is the corresponding
  buffer of the source in shape, scalar type and device, on a storage of its own: the
  three storages are the next three free addresses of the store, so none was in use
  before the call, every entry of the three buffers is uninitialised, and no storage that
  was in use before the call is changed.
\<close>

theorem resize_as_template:
  assumes "resize_as_sparse_csr_tensor' (w, self) src = Inr (w', self')"
  shows "layout' self' = layout' src
       \<and> sizes_and_strides' self' = sizes_and_strides' src
       \<and> crow_indices' self' = (crow_indices' src)\<lparr>storage := next_storage w\<rparr>
       \<and> col_indices' self' = (col_indices' src)\<lparr>storage := next_storage w + 1\<rparr>
       \<and> values' self' = (values' src)\<lparr>storage := next_storage w + 2\<rparr>
       \<and> next_storage w' = next_storage w + 3
       \<and> entries w' (crow_indices' self')
           = replicate (numel_of (sizes (crow_indices' src))) None
       \<and> entries w' (col_indices' self')
           = replicate (numel_of (sizes (col_indices' src))) None
       \<and> entries w' (values' self') = replicate (numel_of (sizes (values' src))) None
       \<and> (\<forall>a. a < next_storage w \<longrightarrow> heap w' a = heap w a)"
proof -
  obtain w1 crow where a1: "at_empty_like w (crow_indices' src) = (w1, crow)"
    by (cases "at_empty_like w (crow_indices' src)")
  obtain w2 col where a2: "at_empty_like w1 (col_indices' src) = (w2, col)"
    by (cases "at_empty_like w1 (col_indices' src)")
  obtain w3 vals where a3: "at_empty_like w2 (values' src) = (w3, vals)"
    by (cases "at_empty_like w2 (values' src)")
  from assms have sym: "\<not> has_symbolic_sizes_strides' self"
    by (auto simp: resize_as_sparse_csr_tensor'_def split: if_splits)
  from assms sym have w': "w' = w3"
    and self': "self' = refresh_numel
        (self\<lparr>layout' := layout' src, crow_indices' := crow, col_indices' := col,
              values' := vals, sizes_and_strides' := sizes_and_strides' src\<rparr>)"
    by (simp_all add: resize_as_sparse_csr_tensor'_def Let_def a1 a2 a3)
  note p1 = at_empty_like_props [OF a1]
  note p2 = at_empty_like_props [OF a2]
  note p3 = at_empty_like_props [OF a3]
  have e1: "entries w3 crow = replicate (numel_of (sizes (crow_indices' src))) None"
    using entries_uninitialised [of w3 crow] by (simp add: p1 p2 p3)
  have e2: "entries w3 col = replicate (numel_of (sizes (col_indices' src))) None"
    using entries_uninitialised [of w3 col] by (simp add: p1 p2 p3)
  have e3: "entries w3 vals = replicate (numel_of (sizes (values' src))) None"
    using entries_uninitialised [of w3 vals] by (simp add: p1 p2 p3)
  show ?thesis
    using e1 e2 e3 by (simp add: w' self' refresh_numel_def p1 p2 p3)
qed

text \<open>
  Re-templating the BSR instance \<open>bsr_4x4\<close> after the CSR instance \<open>csr_2x3\<close>: the three
  new buffers are on the storages \<open>3\<close>, \<open>4\<close> and \<open>5\<close>, the first free ones.
\<close>

theorem resize_as_template_witness:
  "(let r = resize_as_sparse_csr_tensor' (bsr_world, bsr_4x4) csr_2x3;
        w' = fst (state_after r); self' = snd (state_after r)
    in r = Inr (w', self')
       \<and> layout' self' = kSparseCsr
       \<and> sizes_and_strides' self' = [2, 3]
       \<and> crow_indices' self' = buffer 3 [3] kInt cpu
       \<and> col_indices' self' = buffer 4 [5] kInt cpu
       \<and> values' self' = buffer 5 [5] kFloat cpu
       \<and> next_storage w' = 6
       \<and> entries w' (crow_indices' self') = [None, None, None]
       \<and> entries w' (col_indices' self') = [None, None, None, None, None]
       \<and> entries w' (values' self') = [None, None, None, None, None])"
proof -
  let ?r = "resize_as_sparse_csr_tensor' (bsr_world, bsr_4x4) csr_2x3"
  have "thrown ?r = None"
    by code_simp
  then have h: "?r = Inr (fst (state_after ?r), snd (state_after ?r))"
    by (rule returned)
  have g: "replicate (numel_of [3]) (None :: cell) = [None, None, None]
         \<and> replicate (numel_of [5]) (None :: cell) = [None, None, None, None, None]"
    by code_simp
  have src: "layout' csr_2x3 = kSparseCsr \<and> sizes_and_strides' csr_2x3 = [2, 3]
           \<and> next_storage bsr_world = 3
           \<and> (crow_indices' csr_2x3)\<lparr>storage := 3\<rparr> = buffer 3 [3] kInt cpu
           \<and> (col_indices' csr_2x3)\<lparr>storage := 4\<rparr> = buffer 4 [5] kInt cpu
           \<and> (values' csr_2x3)\<lparr>storage := 5\<rparr> = buffer 5 [5] kFloat cpu"
    by (simp add: csr_2x3_def instance_of_def buffer_def bsr_world_def)
  have sz: "sizes (buffer 3 [3] kInt cpu) = [3] \<and> sizes (buffer 4 [5] kInt cpu) = [5]
          \<and> sizes (buffer 5 [5] kFloat cpu) = [5]
          \<and> sizes (crow_indices' csr_2x3) = [3] \<and> sizes (col_indices' csr_2x3) = [5]
          \<and> sizes (values' csr_2x3) = [5]"
    by (simp add: csr_2x3_def instance_of_def buffer_def)
  show ?thesis
    using h g src sz resize_as_template [OF h]
    by (auto simp: Let_def)
qed

subsection \<open>C10: a symbolic shape is rejected by every mutating operation\<close>

text \<open>
  C10.  On an instance whose shape is symbolic, each of \<open>resize'\<close>,
  \<open>resize_and_clear'\<close>, \<open>resize_as_sparse_csr_tensor'\<close> and \<open>set_member_tensors\<close> fails
  with \<open>UnsupportedOnSymbolicShape\<close>, whatever its arguments, and leaves the store and
  the instance as they were.
\<close>

theorem symbolic_shape_rejected:
  assumes "has_symbolic_sizes_strides' self"
  shows "resize' (w, self) nnz sz = Inl (UnsupportedOnSymbolicShape, (w, self))
       \<and> resize_and_clear' (w, self) sparse_dim sz = Inl (UnsupportedOnSymbolicShape, (w, self))
       \<and> resize_as_sparse_csr_tensor' (w, self) src = Inl (UnsupportedOnSymbolicShape, (w, self))
       \<and> set_member_tensors (w, self) crow_indices col_indices vals sz
           = Inl (UnsupportedOnSymbolicShape, (w, self))"
  using assms
  by (simp add: resize'_def resize_and_clear'_def resize_as_sparse_csr_tensor'_def
      set_member_tensors_def)

text \<open>The four operations on \<open>symbolic_csr\<close>, the instance \<open>csr_2x3\<close> with a symbolic shape.\<close>

theorem symbolic_shape_rejected_witness:
  "has_symbolic_sizes_strides' symbolic_csr
   \<and> resize' (csr_world, symbolic_csr) 5 [4, 3]
       = Inl (UnsupportedOnSymbolicShape, (csr_world, symbolic_csr))
   \<and> resize_and_clear' (csr_world, symbolic_csr) 2 [4, 3]
       = Inl (UnsupportedOnSymbolicShape, (csr_world, symbolic_csr))
   \<and> resize_as_sparse_csr_tensor' (csr_world, symbolic_csr) csr_2x3
       = Inl (UnsupportedOnSymbolicShape, (csr_world, symbolic_csr))
   \<and> set_member_tensors (csr_world, symbolic_csr) (buffer 0 [3] kInt cpu)
         (buffer 1 [5] kInt cpu) (buffer 2 [5] kFloat cpu) [2, 3]
       = Inl (UnsupportedOnSymbolicShape, (csr_world, symbolic_csr))"
proof -
  have h: "has_symbolic_sizes_strides' symbolic_csr"
    by (simp add: symbolic_csr_def)
  show ?thesis
    using h symbolic_shape_rejected [OF h] by simp
qed

end
